theory Spec2Isabelle
  imports Main "HOL-Library.While_Combinator"
begin

section \<open>Text\<close>

text \<open>
  Python strings are modelled as \<^typ>\<open>string\<close>, one \<^typ>\<open>char\<close> per character
  (code points below 256). \<open>NL\<close> is the line feed written \<^verbatim>\<open>\n\<close> in the source.
\<close>

abbreviation NL :: char where
  "NL \<equiv> CHR 0x0A"

text \<open>\<^verbatim>\<open>str(n)\<close> for an integer, as the f-strings of the source render ids and lengths.\<close>

definition digit :: "nat \<Rightarrow> char" where
  "digit d = ''0123456789'' ! d"

function str_nat :: "nat \<Rightarrow> string" where
  "str_nat n = (if n < 10 then [digit n] else str_nat (n div 10) @ [digit (n mod 10)])"
  by pat_completeness auto
termination
  by (relation "measure (\<lambda>n. n)") auto

declare str_nat.simps [simp del]

definition str_int :: "int \<Rightarrow> string" where
  "str_int i = (if i < 0 then CHR ''-'' # str_nat (nat (- i)) else str_nat (nat i))"

text \<open>\<^verbatim>\<open>s.lower()\<close>: the upper-case letters of ASCII and Latin-1 move up by 32.\<close>

definition lower_char :: "char \<Rightarrow> char" where
  "lower_char c =
     (let n = (of_char c :: nat)
      in if (65 \<le> n \<and> n \<le> 90) \<or> (192 \<le> n \<and> n \<le> 222 \<and> n \<noteq> 215)
         then char_of (n + 32) else c)"

definition lower :: "string \<Rightarrow> string" where
  "lower s = map lower_char s"

text \<open>\<^verbatim>\<open>k in s\<close> on strings: \<open>k\<close> occurs in \<open>s\<close> as a contiguous piece.\<close>

fun contains :: "string \<Rightarrow> string \<Rightarrow> bool" where
  "contains k [] = (k = [])"
| "contains k (c # cs) = (take (length k) (c # cs) = k \<or> contains k cs)"

text \<open>\<^verbatim>\<open>sep.join(xs)\<close>.\<close>

fun join :: "string \<Rightarrow> string list \<Rightarrow> string" where
  "join sep [] = []"
| "join sep [x] = x"
| "join sep (x # y # ys) = x @ sep @ join sep (y # ys)"

text \<open>
  \<^verbatim>\<open>s.strip()\<close> removes leading and trailing whitespace; \<open>isspace\<close> lists the
  whitespace characters below code point 256.
\<close>

definition isspace :: "char \<Rightarrow> bool" where
  "isspace c =
     (let n = (of_char c :: nat)
      in (9 \<le> n \<and> n \<le> 13) \<or> (28 \<le> n \<and> n \<le> 32) \<or> n = 133 \<or> n = 160)"

definition strip :: "string \<Rightarrow> string" where
  "strip s = rev (dropWhile isspace (rev (dropWhile isspace s)))"

text \<open>
  \<^verbatim>\<open>content.replace("\n\n", "\n")\<close> replaces the occurrences found from left to
  right, without overlap; \<open>collapse\<close> is the loop
  \<^verbatim>\<open>while "\n\n" in content: content = content.replace("\n\n", "\n")\<close>
  of \<^verbatim>\<open>tools.py\<close>, lines 50-51.
\<close>

fun replace_nn :: "string \<Rightarrow> string" where
  "replace_nn (a # b # cs) =
     (if a = NL \<and> b = NL then NL # replace_nn cs else a # replace_nn (b # cs))"
| "replace_nn cs = cs"

lemma length_replace_nn_le: "length (replace_nn cs) \<le> length cs"
  by (induction cs rule: replace_nn.induct) auto

lemma length_replace_nn_less:
  "contains [NL, NL] cs \<Longrightarrow> length (replace_nn cs) < length cs"
proof (induction cs rule: replace_nn.induct)
  case (1 a b cs)
  show ?case
  proof (cases "a = NL \<and> b = NL")
    case True
    then have "replace_nn (a # b # cs) = NL # replace_nn cs"
      by simp
    then show ?thesis
      using length_replace_nn_le [of cs] by simp
  next
    case False
    then have unfold: "replace_nn (a # b # cs) = a # replace_nn (b # cs)"
      by auto
    from "1.prems" False have "contains [NL, NL] (b # cs)"
      by auto
    with "1.IH" False have "length (replace_nn (b # cs)) < length (b # cs)"
      by blast
    then show ?thesis
      unfolding unfold by simp
  qed
qed simp_all

function collapse :: "string \<Rightarrow> string" where
  "collapse content =
     (if contains [NL, NL] content then collapse (replace_nn content) else content)"
  by pat_completeness auto
termination
  by (relation "measure length") (auto simp: length_replace_nn_less)

declare collapse.simps [simp del]

section \<open>The tables of \<^verbatim>\<open>database.py\<close>\<close>

text \<open>
  A row of \<^verbatim>\<open>analysis_queue\<close> and a row of \<^verbatim>\<open>analysis_results\<close>. The
  \<^verbatim>\<open>status\<close> column is a string, as in the source; a \<^verbatim>\<open>DateTime\<close> is a
  point on a discrete time line, a nullable column an \<open>option\<close>. The key column
  \<^verbatim>\<open>id\<close> is \<open>item_id\<close> and \<open>result_id\<close> here; the columns of a result row carry the
  prefix \<open>r_\<close> where a queue column has the same name.
\<close>

record AnalysisQueue =
  item_id :: int
  user_id :: int
  filename :: string
  file_path :: string
  query :: string
  status :: string
  priority :: int
  created_at :: nat
  started_at :: "nat option"
  completed_at :: "nat option"
  error_message :: "string option"

record AnalysisResult =
  result_id :: int
  r_user_id :: int
  r_filename :: string
  file_size :: int
  r_query :: string
  analysis_result :: string
  processing_time :: nat
  r_status :: string
  r_created_at :: nat

record database =
  analysis_queue :: "AnalysisQueue list"
  analysis_results :: "AnalysisResult list"

text \<open>
  The committed database and the jobs handed to the Redis queue
  \<^verbatim>\<open>financial_analysis\<close> make up the state the queue manager works on.
\<close>

record system =
  store :: database
  redis_queue :: "int list"

text \<open>An integer primary key of SQLite: one more than the largest key in the table.\<close>

definition next_id :: "int list \<Rightarrow> int" where
  "next_id ids = foldr max ids 0 + 1"

text \<open>
  \<^verbatim>\<open>db.query(AnalysisQueue).filter(AnalysisQueue.id == queue_id).first()\<close> and the
  write of the changed \<^verbatim>\<open>queue_item\<close> back to its row.
\<close>

definition first_item :: "int \<Rightarrow> database \<Rightarrow> AnalysisQueue option" where
  "first_item queue_id db = find (\<lambda>r. item_id r = queue_id) (analysis_queue db)"

definition update_item :: "int \<Rightarrow> (AnalysisQueue \<Rightarrow> AnalysisQueue) \<Rightarrow> database \<Rightarrow> database" where
  "update_item queue_id f db =
     db\<lparr>analysis_queue := map (\<lambda>r. if item_id r = queue_id then f r else r) (analysis_queue db)\<rparr>"

section \<open>What a call observes of the outside world\<close>

text \<open>
  Every call reads the module flag \<^verbatim>\<open>REDIS_CONNECTED\<close>, the file system, the PDF
  library, the clock, and may see Redis or the database raise. These observations are
  the fields of \<open>world\<close>; an \<open>option\<close> field holds \<^verbatim>\<open>str(e)\<close> of the exception a
  call raises, \<open>None\<close> when it returns.
  \<^item> \<open>REDIS_CONNECTED\<close>: the flag set once at import, from \<^verbatim>\<open>redis_conn.ping()\<close>
    (\<^verbatim>\<open>queue_worker.py\<close>, lines 26-37).
  \<^item> \<open>enqueue_error\<close>: \<^verbatim>\<open>queue.enqueue\<close> (line 63).
  \<^item> \<open>commit_submit_error\<close>, \<open>commit_claim_error\<close>, \<open>commit_finish_error\<close>,
    \<open>commit_failed_error\<close>: \<^verbatim>\<open>db.commit()\<close> on lines 59, 95, 123 and 137.
  \<^item> \<open>path_exists\<close>, \<open>getsize\<close>: \<^verbatim>\<open>os.path.exists\<close>, \<^verbatim>\<open>os.path.getsize\<close>.
  \<^item> \<open>pdf_pages\<close>: opening the file and \<^verbatim>\<open>extract_text()\<close> of each page, or the
    exception one of these raises. The module \<^verbatim>\<open>PyPDF2\<close> is taken to be installed.
  \<^item> \<open>utcnow_submitted\<close>, \<open>utcnow_started\<close>, \<open>utcnow_completed\<close>,
    \<open>utcnow_result\<close>: the readings of \<^verbatim>\<open>datetime.utcnow()\<close> for \<^verbatim>\<open>created_at\<close>
    of the queue row, \<^verbatim>\<open>started_at\<close>, \<^verbatim>\<open>completed_at\<close> and \<^verbatim>\<open>created_at\<close>
    of the result row; \<open>utcnow_isoformat\<close> is the reading printed into the report.
  \<^item> \<open>elapsed\<close>: \<^verbatim>\<open>time.time() - start_time\<close>.
\<close>

record world =
  REDIS_CONNECTED :: bool
  enqueue_error :: "string option"
  commit_submit_error :: "string option"
  commit_claim_error :: "string option"
  commit_finish_error :: "string option"
  commit_failed_error :: "string option"
  path_exists :: "string \<Rightarrow> bool"
  getsize :: "string \<Rightarrow> string + int"
  pdf_pages :: "string \<Rightarrow> string + string list"
  utcnow_submitted :: nat
  utcnow_started :: nat
  utcnow_completed :: nat
  utcnow_result :: nat
  utcnow_isoformat :: string
  elapsed :: nat

section \<open>\<^verbatim>\<open>FinancialDocumentTool._run\<close> (\<^verbatim>\<open>tools.py\<close>, lines 24-62)\<close>

definition full_report :: "string list \<Rightarrow> string" where
  "full_report pages = concat (map (\<lambda>content. collapse content @ [NL]) pages)"

definition FinancialDocumentTool_run :: "world \<Rightarrow> string \<Rightarrow> string" where
  "FinancialDocumentTool_run w path =
     (if \<not> path_exists w path then ''Error: PDF file not found at '' @ path
      else case pdf_pages w path of
             Inl e \<Rightarrow> ''Error reading PDF file: '' @ e
           | Inr pages \<Rightarrow>
               if length (full_report pages) > 10000
               then take 10000 (full_report pages) @ [NL, NL] @
                    ''[Document truncated for processing...]''
               else if strip (full_report pages) \<noteq> [] then full_report pages
               else ''No readable content found in PDF'')"

subsection \<open>The call, step by step\<close>

text \<open>
  \<open>FinancialDocumentTool_run\<close> above is the string the call returns. Whether the call
  returns at all is a property of its control flow, which is written out here. A
  computation is \<open>None\<close> when it does not return, \<open>Some (Inl e)\<close> when it raises an
  exception with \<^verbatim>\<open>str(e) = e\<close>, and \<open>Some (Inr v)\<close> when it returns \<open>v\<close>.
  \<^item> \<open>collapse_loop\<close> is the \<^verbatim>\<open>while\<close> loop of lines 50-51, run as long as its test
    holds.
  \<^item> \<open>read_pages\<close> is the \<^verbatim>\<open>for\<close> loop of lines 45-53 over the extracted pages,
    with \<^verbatim>\<open>full_report\<close> as its second argument.
  \<^item> \<open>try_block\<close> is the body of the \<^verbatim>\<open>try\<close>, lines 34-59: it raises what opening
    and reading the file raise.
  \<^item> \<open>except_Exception\<close> is the handler of lines 61-62.
\<close>

definition collapse_loop :: "string \<Rightarrow> string option" where
  "collapse_loop content = while_option (contains [NL, NL]) replace_nn content"

fun read_pages :: "string list \<Rightarrow> string \<Rightarrow> string option" where
  "read_pages [] report = Some report"
| "read_pages (content # pages) report =
     (case collapse_loop content of
        None \<Rightarrow> None
      | Some cleaned \<Rightarrow> read_pages pages (report @ cleaned @ [NL]))"

definition try_block :: "world \<Rightarrow> string \<Rightarrow> (string + string) option" where
  "try_block w path =
     (if \<not> path_exists w path then Some (Inr (''Error: PDF file not found at '' @ path))
      else case pdf_pages w path of
             Inl e \<Rightarrow> Some (Inl e)
           | Inr pages \<Rightarrow>
               (case read_pages pages [] of
                  None \<Rightarrow> None
                | Some report \<Rightarrow>
                    Some (Inr (if length report > 10000
                               then take 10000 report @ [NL, NL] @
                                    ''[Document truncated for processing...]''
                               else if strip report \<noteq> [] then report
                               else ''No readable content found in PDF''))))"

definition except_Exception :: "(string + string) option \<Rightarrow> (string + string) option" where
  "except_Exception body =
     (case body of
        None \<Rightarrow> None
      | Some (Inl e) \<Rightarrow> Some (Inr (''Error reading PDF file: '' @ e))
      | Some (Inr v) \<Rightarrow> Some (Inr v))"

definition FinancialDocumentTool_run_call :: "world \<Rightarrow> string \<Rightarrow> (string + string) option" where
  "FinancialDocumentTool_run_call w path = except_Exception (try_block w path)"

section \<open>\<^verbatim>\<open>QueueManager\<close> (\<^verbatim>\<open>queue_worker.py\<close>)\<close>

subsection \<open>\<^verbatim>\<open>perform_analysis\<close> (lines 147-193)\<close>

definition financial_keywords :: "(string \<times> string) list" where
  "financial_keywords =
     [(''revenue'', ''Revenue/Sales data found''),
      (''profit'', ''Profitability information identified''),
      (''loss'', ''Loss information detected''),
      (''cash flow'', ''Cash flow statements present''),
      (''assets'', ''Asset information available''),
      (''liabilities'', ''Liability data found''),
      (''equity'', ''Equity information present''),
      (''debt'', ''Debt information identified''),
      (''investment'', ''Investment data found''),
      (''dividend'', ''Dividend information present'')]"

definition findings :: "string \<Rightarrow> string list" where
  "findings pdf_content =
     map (\<lambda>(keyword, description). ''- '' @ description)
       (filter (\<lambda>(keyword, description). contains (lower keyword) (lower pdf_content))
          financial_keywords)"

text \<open>
  No statement of the \<^verbatim>\<open>try\<close> block raises, so the handler on lines 192-193 is
  never entered and the function returns the report.
\<close>

definition perform_analysis :: "world \<Rightarrow> string \<Rightarrow> string \<Rightarrow> string" where
  "perform_analysis w pdf_content q =
     [NL] @ ''# Financial Document Analysis'' @ [NL, NL] @
     ''## Query: '' @ q @ [NL, NL] @
     ''## Document Analysis:'' @ [NL] @
     ''- Content length: '' @ str_nat (length pdf_content) @ '' characters'' @ [NL] @
     ''- Analysis timestamp: '' @ utcnow_isoformat w @ [NL, NL] @
     ''## Key Findings:'' @ [NL] @
     (if findings pdf_content \<noteq> [] then join [NL] (findings pdf_content)
      else ''- No specific financial keywords detected'') @
     [NL, NL] @ ''## Document Preview (first 500 characters):'' @ [NL] @
     take 500 pdf_content @ ''...''"

subsection \<open>\<^verbatim>\<open>process_document\<close> (lines 81-145)\<close>

text \<open>
  The dictionary the routine returns: \<^verbatim>\<open>{"error": "Queue item not found"}\<close>,
  \<^verbatim>\<open>{"status": "success", ...}\<close> with the result id, the processing time and the
  report, or \<^verbatim>\<open>{"status": "error", "message": str(e)}\<close>.
\<close>

datatype outcome =
  NotFound
| Success int nat string
| Error string

text \<open>
  Each call works in a session of its own. The \<open>database\<close> argument is the committed
  state; what the session changes reaches it with a \<^verbatim>\<open>db.commit()\<close> that returns,
  and a commit that raises leaves the committed state as it was, the session rolled
  back.

  \<open>claim_row\<close> is the assignment of lines 93-94 to \<^verbatim>\<open>queue_item\<close>, \<open>complete_row\<close>
  that of lines 120-121, \<open>fail_row\<close> that of lines 134-136; \<open>mark_processing\<close>,
  \<open>mark_completed\<close> (with the new result row of lines 108-117) and \<open>mark_failed\<close> are the
  database these leave once committed.
\<close>

definition claim_row :: "world \<Rightarrow> AnalysisQueue \<Rightarrow> AnalysisQueue" where
  "claim_row w r = r\<lparr>status := ''processing'', started_at := Some (utcnow_started w)\<rparr>"

definition complete_row :: "world \<Rightarrow> AnalysisQueue \<Rightarrow> AnalysisQueue" where
  "complete_row w r = r\<lparr>status := ''completed'', completed_at := Some (utcnow_completed w)\<rparr>"

definition fail_row :: "world \<Rightarrow> string \<Rightarrow> AnalysisQueue \<Rightarrow> AnalysisQueue" where
  "fail_row w e r =
     r\<lparr>status := ''failed'', error_message := Some e,
       completed_at := Some (utcnow_completed w)\<rparr>"

definition mark_processing :: "world \<Rightarrow> int \<Rightarrow> database \<Rightarrow> database" where
  "mark_processing w queue_id db = update_item queue_id (claim_row w) db"

definition new_result :: "world \<Rightarrow> AnalysisQueue \<Rightarrow> string \<Rightarrow> int \<Rightarrow> database \<Rightarrow> AnalysisResult" where
  "new_result w queue_item analysis sz db =
     \<lparr>result_id = next_id (map result_id (analysis_results db)),
      r_user_id = user_id queue_item,
      r_filename = filename queue_item,
      file_size = sz,
      r_query = query queue_item,
      analysis_result = analysis,
      processing_time = elapsed w,
      r_status = ''completed'',
      r_created_at = utcnow_result w\<rparr>"

definition mark_completed :: "world \<Rightarrow> int \<Rightarrow> AnalysisResult \<Rightarrow> database \<Rightarrow> database" where
  "mark_completed w queue_id result db =
     update_item queue_id (complete_row w)
       (db\<lparr>analysis_results := analysis_results db @ [result]\<rparr>)"

definition mark_failed :: "world \<Rightarrow> int \<Rightarrow> string \<Rightarrow> database \<Rightarrow> database" where
  "mark_failed w queue_id e db = update_item queue_id (fail_row w e) db"

text \<open>
  Lines 132-139, entered with the exception \<open>e\<close> of the inner \<^verbatim>\<open>try\<close>: the job is
  marked failed and committed. When that commit raises too, the outer handler
  (lines 141-143) rolls back and the committed state stays as the claim left it.
\<close>

definition handle_processing_error :: "world \<Rightarrow> int \<Rightarrow> string \<Rightarrow> database \<Rightarrow> database \<times> outcome" where
  "handle_processing_error w queue_id e db =
     (case commit_failed_error w of
        None \<Rightarrow> (mark_failed w queue_id e db, Error e)
      | Some e' \<Rightarrow> (db, Error e'))"

text \<open>
  Line 111:
  \<^verbatim>\<open>os.path.getsize(p) if os.path.exists(p) else 0\<close>; \<open>Inl\<close> is the exception
  \<^verbatim>\<open>getsize\<close> raises.
\<close>

definition measured_size :: "world \<Rightarrow> string \<Rightarrow> string + int" where
  "measured_size w p = (if path_exists w p then getsize w p else Inr 0)"

text \<open>Lines 97-139, run on the committed state \<open>db\<close> in which the job is claimed.\<close>

definition analyse :: "world \<Rightarrow> int \<Rightarrow> AnalysisQueue \<Rightarrow> database \<Rightarrow> database \<times> outcome" where
  "analyse w queue_id queue_item db =
     (let pdf_content = FinancialDocumentTool_run w (file_path queue_item);
          analysis = perform_analysis w pdf_content (query queue_item)
      in case measured_size w (file_path queue_item) of
           Inl e \<Rightarrow> handle_processing_error w queue_id e db
         | Inr sz \<Rightarrow>
             (let result = new_result w queue_item analysis sz db
              in case commit_finish_error w of
                   None \<Rightarrow>
                     (mark_completed w queue_id result db,
                      Success (result_id result) (elapsed w) analysis)
                 | Some e \<Rightarrow> handle_processing_error w queue_id e db))"

definition process_document :: "world \<Rightarrow> int \<Rightarrow> database \<Rightarrow> database \<times> outcome" where
  "process_document w queue_id db =
     (case first_item queue_id db of
        None \<Rightarrow> (db, NotFound)
      | Some queue_item \<Rightarrow>
          (case commit_claim_error w of
             Some e \<Rightarrow> (db, Error e)
           | None \<Rightarrow> analyse w queue_id queue_item (mark_processing w queue_id db)))"

subsection \<open>\<^verbatim>\<open>add_to_queue\<close> (lines 45-79)\<close>

text \<open>
  The result is \<open>Inr\<close> of the returned string, or \<open>Inl\<close> of the exception raised to
  the caller by \<^verbatim>\<open>raise e\<close> on line 77. The \<^verbatim>\<open>db.rollback()\<close> before it undoes
  what is not committed: nothing once the commit of line 59 has returned.
\<close>

definition new_item :: "world \<Rightarrow> int \<Rightarrow> string \<Rightarrow> string \<Rightarrow> string \<Rightarrow> int \<Rightarrow> database \<Rightarrow> AnalysisQueue" where
  "new_item w user fname path q prio db =
     \<lparr>item_id = next_id (map item_id (analysis_queue db)),
      user_id = user,
      filename = fname,
      file_path = path,
      query = q,
      status = ''pending'',
      priority = prio,
      created_at = utcnow_submitted w,
      started_at = None,
      completed_at = None,
      error_message = None\<rparr>"

definition insert_item :: "AnalysisQueue \<Rightarrow> database \<Rightarrow> database" where
  "insert_item queue_item db = db\<lparr>analysis_queue := analysis_queue db @ [queue_item]\<rparr>"

definition add_to_queue ::
  "world \<Rightarrow> int \<Rightarrow> string \<Rightarrow> string \<Rightarrow> string \<Rightarrow> int \<Rightarrow> system \<Rightarrow> system \<times> (string + string)" where
  "add_to_queue w user fname path q prio s =
     (let queue_item = new_item w user fname path q prio (store s)
      in case commit_submit_error w of
           Some e \<Rightarrow> (s, Inl e)
         | None \<Rightarrow>
             (let s1 = s\<lparr>store := insert_item queue_item (store s)\<rparr>
              in if REDIS_CONNECTED w then
                   (case enqueue_error w of
                      Some e \<Rightarrow> (s1, Inl e)
                    | None \<Rightarrow>
                        (s1\<lparr>redis_queue := redis_queue s1 @ [item_id queue_item]\<rparr>,
                         Inr (''queued_redis_'' @ ''analysis_'' @ str_int (item_id queue_item))))
                 else
                   (s1\<lparr>store := fst (process_document w (item_id queue_item) (store s1))\<rparr>,
                    Inr (''processed_immediate_'' @ str_int (item_id queue_item)))))"

subsection \<open>\<^verbatim>\<open>get_queue_status\<close> (lines 195-218)\<close>

text \<open>
  The returned dictionary; its key \<^verbatim>\<open>total\<close> is the field \<open>total_jobs\<close>. The
  function returns the database beside it, so that what it leaves in the store can be
  stated. \<^verbatim>\<open>if user_id:\<close> is Python's truth test: \<^verbatim>\<open>None\<close> and \<open>0\<close> are false.
\<close>

record queue_status =
  total_jobs :: nat
  pending :: nat
  processing :: nat
  completed :: nat
  failed :: nat
  redis_connected :: bool

definition truthy :: "int option \<Rightarrow> bool" where
  "truthy user = (case user of None \<Rightarrow> False | Some u \<Rightarrow> u \<noteq> 0)"

definition count_status :: "string \<Rightarrow> AnalysisQueue list \<Rightarrow> nat" where
  "count_status st rows = length (filter (\<lambda>r. status r = st) rows)"

definition get_queue_status :: "world \<Rightarrow> int option \<Rightarrow> database \<Rightarrow> database \<times> queue_status" where
  "get_queue_status w user db =
     (let rows = (if truthy user then filter (\<lambda>r. user_id r = the user) (analysis_queue db)
                  else analysis_queue db)
      in (db,
          \<lparr>total_jobs = length rows,
           pending = count_status ''pending'' rows,
           processing = count_status ''processing'' rows,
           completed = count_status ''completed'' rows,
           failed = count_status ''failed'' rows,
           redis_connected = REDIS_CONNECTED w\<rparr>))"

section \<open>Sequences of calls\<close>

text \<open>
  A submission is a call of \<open>add_to_queue\<close>; an execution is a call of
  \<open>process_document\<close> with a job id, as the worker makes it for a job delivered by
  Redis. Each call comes with the world it observes.
\<close>

datatype operation =
  Submit world int string string string int
| Execute world int

fun run :: "operation \<Rightarrow> system \<Rightarrow> system" where
  "run (Submit w user fname path q prio) s = fst (add_to_queue w user fname path q prio s)"
| "run (Execute w queue_id) s = s\<lparr>store := fst (process_document w queue_id (store s))\<rparr>"

definition run_all :: "operation list \<Rightarrow> system \<Rightarrow> system" where
  "run_all ops s = foldl (\<lambda>s' op. run op s') s ops"

definition empty_system :: system where
  "empty_system = \<lparr>store = \<lparr>analysis_queue = [], analysis_results = []\<rparr>, redis_queue = []\<rparr>"

fun world_of :: "operation \<Rightarrow> world" where
  "world_of (Submit w user fname path q prio) = w"
| "world_of (Execute w queue_id) = w"

text \<open>The execution \<open>op\<close> is a call of \<open>process_document\<close> for the job id \<open>j\<close>.\<close>

fun executes :: "operation \<Rightarrow> int \<Rightarrow> bool" where
  "executes (Submit w user fname path q prio) j = False"
| "executes (Execute w queue_id) j = (queue_id = j)"

text \<open>
  The clock does not run backwards between line 94 and lines 121 and 136 of one call.
\<close>

definition clock_ordered :: "operation \<Rightarrow> bool" where
  "clock_ordered op = (utcnow_started (world_of op) \<le> utcnow_completed (world_of op))"

section \<open>Observations on the store\<close>

text \<open>
  The status of a job as the status endpoint reads it (\<^verbatim>\<open>enhanced_main.py\<close>, lines
  127-133): the row with the id, its \<^verbatim>\<open>status\<close>.
\<close>

definition job_status :: "int \<Rightarrow> database \<Rightarrow> string option" where
  "job_status queue_id db = map_option status (first_item queue_id db)"

text \<open>
  What one call of \<open>process_document\<close> writes to the row of its job, by the commits
  that return: nothing when the claim is not committed; the claim alone when neither the
  result nor the failure is committed; else the claim and the outcome. \<open>queue_item\<close> is
  the row the call has read. Lemma \<open>process_document_rows\<close> below relates it to
  \<open>process_document\<close>.
\<close>

definition job_effect :: "world \<Rightarrow> AnalysisQueue \<Rightarrow> AnalysisQueue \<Rightarrow> AnalysisQueue" where
  "job_effect w queue_item r =
     (case commit_claim_error w of
        Some e \<Rightarrow> r
      | None \<Rightarrow>
          (case measured_size w (file_path queue_item) of
             Inl e \<Rightarrow>
               (case commit_failed_error w of
                  None \<Rightarrow> fail_row w e (claim_row w r)
                | Some e' \<Rightarrow> claim_row w r)
           | Inr sz \<Rightarrow>
               (case commit_finish_error w of
                  None \<Rightarrow> complete_row w (claim_row w r)
                | Some e \<Rightarrow>
                    (case commit_failed_error w of
                       None \<Rightarrow> fail_row w e (claim_row w r)
                     | Some e' \<Rightarrow> claim_row w r))))"

section \<open>The contract of the specification\<close>

text \<open>
  The listing operation of the Job Store, in the words of the specification:
  \<open>list(filter: {ownerId?, status?})\<close> yields the job records of the given owner,
  when one is given, that have the given status, when one is given.
\<close>

definition job_list :: "int option \<Rightarrow> string option \<Rightarrow> database \<Rightarrow> AnalysisQueue list" where
  "job_list owner st db =
     filter (\<lambda>r. (case owner of None \<Rightarrow> True | Some u \<Rightarrow> user_id r = u) \<and>
                 (case st of None \<Rightarrow> True | Some v \<Rightarrow> status r = v))
       (analysis_queue db)"

text \<open>The terminal states, and two timestamps that are both set and in order.\<close>

definition terminal :: "string \<Rightarrow> bool" where
  "terminal st = (st = ''completed'' \<or> st = ''failed'')"

definition ordered :: "nat option \<Rightarrow> nat option \<Rightarrow> bool" where
  "ordered a b = (case (a, b) of (Some t0, Some t1) \<Rightarrow> t0 \<le> t1 | _ \<Rightarrow> False)"

text \<open>
  The invariants of a job record in the words of the specification: \<open>startedAt\<close> is
  set if and only if the status is processing, completed or failed; \<open>completedAt\<close> is
  set if and only if the status is completed or failed; for a terminal job
  \<open>startedAt \<le> completedAt\<close>; \<open>errorMessage\<close> is non-empty if and only if the status is
  failed.
\<close>

definition job_invariant :: "AnalysisQueue \<Rightarrow> bool" where
  "job_invariant r =
     (((started_at r \<noteq> None) = (status r = ''processing'' \<or> terminal (status r))) \<and>
      ((completed_at r \<noteq> None) = terminal (status r)) \<and>
      (\<not> terminal (status r) \<or> ordered (started_at r) (completed_at r)) \<and>
      ((error_message r \<noteq> None \<and> error_message r \<noteq> Some []) = (status r = ''failed'')))"

text \<open>
  The part of it that every call keeps: the status is one of the four; \<open>started_at\<close>
  is set if and only if the status is processing, completed or failed; a terminal job
  has both timestamps, in order; a failed job has an error message.
\<close>

definition kept_invariant :: "AnalysisQueue \<Rightarrow> bool" where
  "kept_invariant r =
     ((status r = ''pending'' \<or> status r = ''processing'' \<or> terminal (status r)) \<and>
      ((started_at r \<noteq> None) = (status r = ''processing'' \<or> terminal (status r))) \<and>
      (\<not> terminal (status r) \<or> ordered (started_at r) (completed_at r)) \<and>
      (status r \<noteq> ''failed'' \<or> error_message r \<noteq> None))"

text \<open>
  \<open>r'\<close> is a later state of the job record \<open>r\<close>: the columns written at submission
  are the same, and the status has not returned to pending.
\<close>

definition same_job :: "AnalysisQueue \<Rightarrow> AnalysisQueue \<Rightarrow> bool" where
  "same_job r r' =
     (item_id r' = item_id r \<and> user_id r' = user_id r \<and> filename r' = filename r \<and>
      file_path r' = file_path r \<and> query r' = query r \<and> priority r' = priority r \<and>
      created_at r' = created_at r \<and> (status r = ''pending'' \<or> status r' \<noteq> ''pending''))"

text \<open>
  Idempotent redelivery, in the words of the specification: when the stored status of
  the job is not pending, an execution returns without side effects.
\<close>

definition redelivery_is_noop :: "world \<Rightarrow> int \<Rightarrow> database \<Rightarrow> bool" where
  "redelivery_is_noop w queue_id db =
     (job_status queue_id db \<noteq> Some ''pending'' \<longrightarrow> fst (process_document w queue_id db) = db)"

text \<open>
  State monotonicity, in the words of the specification: over a sequence of operations
  no status moves backward in the ordering pending, processing, terminal, and a record
  in a terminal state is immutable.
\<close>

definition rank :: "string \<Rightarrow> nat" where
  "rank st = (if st = ''pending'' then 0 else if st = ''processing'' then 1 else 2)"

definition monotone_step :: "AnalysisQueue \<Rightarrow> AnalysisQueue \<Rightarrow> bool" where
  "monotone_step r r' = (rank (status r) \<le> rank (status r') \<and> (terminal (status r) \<longrightarrow> r' = r))"

definition status_monotone :: "operation list \<Rightarrow> system \<Rightarrow> bool" where
  "status_monotone ops s =
     list_all (\<lambda>(r, r'). monotone_step r r')
       (zip (analysis_queue (store s)) (analysis_queue (store (run_all ops s))))"

text \<open>
  Fallback transparency, in the words of the specification: with the broker
  unavailable, the job submitted is in a terminal state when \<open>submit\<close> returns.
\<close>

definition resolved_on_return ::
  "world \<Rightarrow> int \<Rightarrow> string \<Rightarrow> string \<Rightarrow> string \<Rightarrow> int \<Rightarrow> system \<Rightarrow> bool" where
  "resolved_on_return w user fname path q prio s =
     (\<not> REDIS_CONNECTED w \<longrightarrow>
      (case job_status (next_id (map item_id (analysis_queue (store s))))
              (store (fst (add_to_queue w user fname path q prio s))) of
         None \<Rightarrow> False
       | Some st \<Rightarrow> terminal st))"

text \<open>
  An input that does not resolve, in the words of the specification: the execution of
  a job whose input reference names no existing file ends in the failed state.
\<close>

definition unresolved_input_fails :: "world \<Rightarrow> int \<Rightarrow> database \<Rightarrow> bool" where
  "unresolved_input_fails w queue_id db =
     (case first_item queue_id db of
        None \<Rightarrow> True
      | Some r \<Rightarrow>
          \<not> path_exists w (file_path r) \<longrightarrow>
          job_status queue_id (fst (process_document w queue_id db)) = Some ''failed'')"

text \<open>
  Broker failures, in the words of the specification: a failure of the dispatch is not
  surfaced to the submitting caller.
\<close>

definition dispatch_error_hidden ::
  "world \<Rightarrow> int \<Rightarrow> string \<Rightarrow> string \<Rightarrow> string \<Rightarrow> int \<Rightarrow> system \<Rightarrow> bool" where
  "dispatch_error_hidden w user fname path q prio s =
     (case enqueue_error w of
        None \<Rightarrow> True
      | Some e \<Rightarrow> snd (add_to_queue w user fname path q prio s) \<noteq> Inl e)"

text \<open>
  A clean abort, in the words of the specification: the storage fault is raised to the
  caller, and the store has no record of the job or its complete pending record.
\<close>

definition aborted_cleanly ::
  "world \<Rightarrow> int \<Rightarrow> string \<Rightarrow> string \<Rightarrow> string \<Rightarrow> int \<Rightarrow> system \<Rightarrow> bool" where
  "aborted_cleanly w user fname path q prio s =
     (case snd (add_to_queue w user fname path q prio s) of
        Inr returned \<Rightarrow> False
      | Inl e \<Rightarrow>
          first_item (next_id (map item_id (analysis_queue (store s))))
            (store (fst (add_to_queue w user fname path q prio s))) = None \<or>
          first_item (next_id (map item_id (analysis_queue (store s))))
            (store (fst (add_to_queue w user fname path q prio s))) =
            Some (new_item w user fname path q prio (store s)))"

section \<open>Sample data\<close>

text \<open>
  \<open>fallback_world\<close>: Redis is down, the database commits, and the one file
  \<^verbatim>\<open>data/report.pdf\<close> exists and has one page of text. \<open>later_world\<close> is the same
  at a later time, \<open>redis_world\<close> the same with Redis up. In \<open>locked_world\<close> the commit
  of line 95 raises; in \<open>stalled_world\<close> the commits of lines 123 and 137 raise; in
  \<open>vanished_world\<close> \<^verbatim>\<open>os.path.getsize\<close> raises; in \<open>refused_world\<close> Redis was up at
  import and \<^verbatim>\<open>queue.enqueue\<close> raises; in \<open>full_disk_world\<close> the commit of line 59
  raises.
\<close>

definition fallback_world :: world where
  "fallback_world =
     \<lparr>REDIS_CONNECTED = False,
      enqueue_error = None,
      commit_submit_error = None,
      commit_claim_error = None,
      commit_finish_error = None,
      commit_failed_error = None,
      path_exists = (\<lambda>p. p = ''data/report.pdf''),
      getsize = (\<lambda>p. Inr 2048),
      pdf_pages = (\<lambda>p. Inr [''Total revenue rose'']),
      utcnow_submitted = 100,
      utcnow_started = 101,
      utcnow_completed = 105,
      utcnow_result = 105,
      utcnow_isoformat = ''2025-08-01T10:00:05'',
      elapsed = 4\<rparr>"

definition later_world :: world where
  "later_world =
     fallback_world\<lparr>utcnow_submitted := 200, utcnow_started := 201, utcnow_completed := 205,
       utcnow_result := 205\<rparr>"

definition redis_world :: world where
  "redis_world = fallback_world\<lparr>REDIS_CONNECTED := True\<rparr>"

definition locked_world :: world where
  "locked_world = fallback_world\<lparr>commit_claim_error := Some ''database is locked''\<rparr>"

definition stalled_world :: world where
  "stalled_world =
     later_world\<lparr>commit_finish_error := Some ''database is locked'',
       commit_failed_error := Some ''database is locked''\<rparr>"

definition vanished_world :: world where
  "vanished_world = fallback_world\<lparr>getsize := (\<lambda>p. Inl ''No such file or directory'')\<rparr>"

definition refused_world :: world where
  "refused_world = redis_world\<lparr>enqueue_error := Some ''Connection refused''\<rparr>"

definition full_disk_world :: world where
  "full_disk_world = fallback_world\<lparr>commit_submit_error := Some ''disk I/O error''\<rparr>"

definition unreadable_world :: world where
  "unreadable_world = fallback_world\<lparr>pdf_pages := (\<lambda>p. Inl ''EOF marker not found'')\<rparr>"

definition long_page :: string where
  "long_page = replicate 10001 (CHR ''a'')"

definition long_world :: world where
  "long_world = fallback_world\<lparr>pdf_pages := (\<lambda>p. Inr [long_page])\<rparr>"

text \<open>A job record as \<open>add_to_queue\<close> creates it, with a given id, owner and status.\<close>

definition job :: "int \<Rightarrow> int \<Rightarrow> string \<Rightarrow> AnalysisQueue" where
  "job i u st =
     \<lparr>item_id = i, user_id = u, filename = ''report.pdf'', file_path = ''data/report.pdf'',
      query = ''Summarise'', status = st, priority = 1, created_at = 100,
      started_at = None, completed_at = None, error_message = None\<rparr>"

definition three_jobs :: database where
  "three_jobs =
     \<lparr>analysis_queue = [job 1 1 ''pending'', job 2 1 ''completed'', job 3 2 ''failed''],
      analysis_results = []\<rparr>"

text \<open>A pending job whose file does not exist.\<close>

definition missing_store :: database where
  "missing_store =
     \<lparr>analysis_queue = [(job 1 1 ''pending'')\<lparr>file_path := ''data/missing.pdf''\<rparr>],
      analysis_results = []\<rparr>"

text \<open>
  The submission of \<^verbatim>\<open>data/report.pdf\<close> by user 1, and the system after one such
  submission with Redis down: job 1 is completed.
\<close>

definition submit_report :: "world \<Rightarrow> operation" where
  "submit_report w = Submit w 1 ''report.pdf'' ''data/report.pdf'' ''Summarise'' 1"

definition finished_system :: system where
  "finished_system = run_all [submit_report fallback_world] empty_system"

section \<open>Lemmas on the tables\<close>

lemmas model_defs =
  add_to_queue_def process_document_def analyse_def handle_processing_error_def
  measured_size_def mark_processing_def mark_completed_def mark_failed_def update_item_def
  first_item_def insert_item_def new_item_def new_result_def next_id_def
  claim_row_def complete_row_def fail_row_def run_all_def job_status_def Let_def

lemma foldr_max_ge: "i \<in> set ids \<Longrightarrow> i \<le> foldr max ids (0::int)"
  by (induction ids) auto

lemma next_id_greater: "i \<in> set ids \<Longrightarrow> i < next_id ids"
  using foldr_max_ge [of i ids] by (simp add: next_id_def)

lemma next_id_not_used:
  "\<forall>r \<in> set (analysis_queue db). item_id r \<noteq> next_id (map item_id (analysis_queue db))"
  using next_id_greater [of _ "map item_id (analysis_queue db)"] by fastforce

lemma rows_update_item [simp]:
  "analysis_queue (update_item q f db) =
     map (\<lambda>r. if item_id r = q then f r else r) (analysis_queue db)"
  "analysis_results (update_item q f db) = analysis_results db"
  by (simp_all add: update_item_def)

lemma item_id_row [simp]:
  "item_id (claim_row w r) = item_id r"
  "item_id (complete_row w r) = item_id r"
  "item_id (fail_row w e r) = item_id r"
  by (simp_all add: claim_row_def complete_row_def fail_row_def)

lemma item_id_job_effect [simp]: "item_id (job_effect w queue_item r) = item_id r"
  by (simp add: job_effect_def split: option.splits sum.splits)

lemma item_id_new_item [simp]:
  "item_id (new_item w user fname path q prio db) = next_id (map item_id (analysis_queue db))"
  by (simp add: new_item_def)

lemma map_touch_twice:
  "(\<And>r. item_id (g r) = item_id r) \<Longrightarrow>
   map (\<lambda>r. if item_id r = q then f r else r) (map (\<lambda>r. if item_id r = q then g r else r) rows) =
   map (\<lambda>r. if item_id r = q then f (g r) else r) rows"
  by (induction rows) auto

lemma map_touch_same: "map (\<lambda>r. if item_id r = q then r else r) rows = rows"
  by (induction rows) auto

lemma touch_fresh:
  "\<forall>r \<in> set rows. item_id r \<noteq> q \<Longrightarrow> map (\<lambda>r. if item_id r = q then g r else r) rows = rows"
  by (induction rows) auto

lemma find_touch:
  "(\<And>r. item_id (g r) = item_id r) \<Longrightarrow>
   find (\<lambda>r. item_id r = q) (map (\<lambda>r. if item_id r = q then g r else r) rows) =
   map_option g (find (\<lambda>r. item_id r = q) rows)"
  by (induction rows) auto

lemma find_append_split:
  "find P (xs @ ys) = (case find P xs of None \<Rightarrow> find P ys | Some x \<Rightarrow> Some x)"
  by (induction xs) auto

lemma first_item_fresh:
  "first_item (next_id (map item_id (analysis_queue db))) db = None"
  using next_id_not_used [of db] by (simp add: first_item_def find_None_iff)

lemma first_item_insert:
  "first_item (item_id r) db = None \<Longrightarrow> first_item (item_id r) (insert_item r db) = Some r"
  by (simp add: first_item_def insert_item_def find_append_split)

lemma first_item_new_item:
  "first_item (next_id (map item_id (analysis_queue db)))
     (insert_item (new_item w user fname path q prio db) db) =
   Some (new_item w user fname path q prio db)"
  using first_item_insert [of "new_item w user fname path q prio db" db] first_item_fresh [of db]
  by simp

lemma first_item_mark_processing:
  "first_item q db = Some r \<Longrightarrow> first_item q (mark_processing w q db) = Some (claim_row w r)"
  by (simp add: first_item_def mark_processing_def find_touch)

section \<open>Lemmas on \<open>process_document\<close>\<close>

lemma process_document_missing:
  "first_item q db = None \<Longrightarrow> process_document w q db = (db, NotFound)"
  by (simp add: process_document_def)

lemma process_document_rows:
  assumes "first_item q db = Some queue_item"
  shows "analysis_queue (fst (process_document w q db)) =
           map (\<lambda>r. if item_id r = q then job_effect w queue_item r else r) (analysis_queue db)"
proof (cases "commit_claim_error w")
  case (Some e)
  then show ?thesis
    using assms by (simp add: process_document_def job_effect_def map_touch_same cong: if_cong)
next
  case None
  show ?thesis
  proof (cases "measured_size w (file_path queue_item)")
    case (Inl e)
    with None assms show ?thesis
      by (cases "commit_failed_error w")
        (simp_all add: process_document_def analyse_def handle_processing_error_def
          job_effect_def mark_processing_def mark_failed_def map_touch_twice cong: if_cong)
  next
    case (Inr sz)
    with None assms show ?thesis
      by (cases "commit_finish_error w"; cases "commit_failed_error w")
        (simp_all add: process_document_def analyse_def handle_processing_error_def
          job_effect_def mark_processing_def mark_failed_def mark_completed_def
          map_touch_twice Let_def cong: if_cong)
  qed
qed

lemma process_document_item:
  assumes "first_item q db = Some queue_item"
  shows "first_item q (fst (process_document w q db)) = Some (job_effect w queue_item queue_item)"
  using assms process_document_rows [OF assms, of w]
  by (simp add: first_item_def find_touch)

lemma process_document_completes:
  assumes "first_item q db = Some r" and "commit_claim_error w = None"
    and "commit_finish_error w = None" and "measured_size w (file_path r) = Inr sz"
  shows "process_document w q db =
           (mark_completed w q
              (new_result w r
                 (perform_analysis w (FinancialDocumentTool_run w (file_path r)) (query r)) sz db)
              (mark_processing w q db),
            Success (next_id (map result_id (analysis_results db))) (elapsed w)
              (perform_analysis w (FinancialDocumentTool_run w (file_path r)) (query r)))"
  using assms
  by (simp add: process_document_def analyse_def new_result_def mark_processing_def Let_def)

lemma job_effect_completes:
  "commit_claim_error w = None \<Longrightarrow> commit_finish_error w = None \<Longrightarrow>
   measured_size w (file_path queue_item) = Inr sz \<Longrightarrow>
   job_effect w queue_item r = complete_row w (claim_row w r)"
  by (simp add: job_effect_def)

lemma finished_system_rows:
  "analysis_queue (store finished_system) =
     [(job 1 1 ''completed'')\<lparr>started_at := Some 101, completed_at := Some 105\<rparr>]"
  by (simp add: finished_system_def fallback_world_def empty_system_def submit_report_def job_def model_defs)

lemma finished_system_results: "length (analysis_results (store finished_system)) = 1"
  by (simp add: finished_system_def fallback_world_def empty_system_def submit_report_def model_defs)

section \<open>The PDF tool\<close>

lemma contains_NL_in: "contains [NL, NL] cs \<Longrightarrow> NL \<in> set cs"
  by (induction cs) (auto dest: in_set_takeD)

lemma collapse_plain: "NL \<notin> set cs \<Longrightarrow> collapse cs = cs"
  using contains_NL_in [of cs] by (subst collapse.simps) auto

text \<open>The loop of lines 50-51 ends, and ends with no blank line left in the page.\<close>

lemma collapse_no_blank_line: "\<not> contains [NL, NL] (collapse cs)"
  by (induction cs rule: collapse.induct) (subst collapse.simps, simp)

lemma full_report_long_page: "full_report [long_page] = replicate 10001 (CHR ''a'') @ [NL]"
  by (simp add: full_report_def long_page_def collapse_plain)

lemma collapse_loop_returns: "collapse_loop cs = Some (collapse cs)"
proof (induction cs rule: collapse.induct)
  case (1 content)
  show ?case
  proof (cases "contains [NL, NL] content")
    case True
    with "1.IH" have "collapse_loop (replace_nn content) = Some (collapse (replace_nn content))"
      by simp
    with True show ?thesis
      unfolding collapse_loop_def
      by (subst while_option_unfold, subst collapse.simps) simp
  next
    case False
    then show ?thesis
      unfolding collapse_loop_def
      by (subst while_option_unfold, subst collapse.simps) simp
  qed
qed

lemma read_pages_returns: "read_pages pages report = Some (report @ full_report pages)"
  by (induction pages arbitrary: report) (simp_all add: full_report_def collapse_loop_returns)

lemma try_block_returns_or_raises:
  "try_block w path =
     (if \<not> path_exists w path then Some (Inr (''Error: PDF file not found at '' @ path))
      else case pdf_pages w path of
             Inl e \<Rightarrow> Some (Inl e)
           | Inr pages \<Rightarrow> Some (Inr (FinancialDocumentTool_run w path)))"
  by (simp add: try_block_def FinancialDocumentTool_run_def read_pages_returns split: sum.splits)

text \<open>
  C10. The call of \<open>_run\<close> returns for every world and path: its loops end, and what
  the \<^verbatim>\<open>try\<close> block raises is caught, so the call raises nothing; the string
  returned is \<open>FinancialDocumentTool_run\<close>. For a path that does not exist the string
  is \<^verbatim>\<open>Error: PDF file not found at\<close> and the path; when the \<^verbatim>\<open>try\<close> block
  raises, it is \<^verbatim>\<open>Error reading PDF file:\<close> and the text of the exception; when
  the text extracted from the pages has more than 10000 characters, it is the first
  10000 of them and the truncation marker.
\<close>

theorem FinancialDocumentTool_run_call_returns:
  "FinancialDocumentTool_run_call w path = Some (Inr (FinancialDocumentTool_run w path))
   \<and> (\<not> path_exists w path \<longrightarrow>
        FinancialDocumentTool_run_call w path =
          Some (Inr (''Error: PDF file not found at '' @ path)))
   \<and> (try_block w path = Some (Inl e) \<longrightarrow>
        FinancialDocumentTool_run_call w path = Some (Inr (''Error reading PDF file: '' @ e)))
   \<and> (path_exists w path \<and> pdf_pages w path = Inr pages \<and>
        read_pages pages [] = Some report \<and> 10000 < length report \<longrightarrow>
        FinancialDocumentTool_run_call w path =
          Some (Inr (take 10000 report @ [NL, NL] @
                     ''[Document truncated for processing...]'')))"
proof (intro conjI impI)
  show "FinancialDocumentTool_run_call w path = Some (Inr (FinancialDocumentTool_run w path))"
    by (simp add: FinancialDocumentTool_run_call_def except_Exception_def
        try_block_returns_or_raises FinancialDocumentTool_run_def split: sum.splits)
next
  assume "\<not> path_exists w path"
  then show "FinancialDocumentTool_run_call w path =
      Some (Inr (''Error: PDF file not found at '' @ path))"
    by (simp add: FinancialDocumentTool_run_call_def except_Exception_def try_block_def)
next
  assume "try_block w path = Some (Inl e)"
  then show "FinancialDocumentTool_run_call w path =
      Some (Inr (''Error reading PDF file: '' @ e))"
    by (simp add: FinancialDocumentTool_run_call_def except_Exception_def)
next
  assume "path_exists w path \<and> pdf_pages w path = Inr pages \<and>
        read_pages pages [] = Some report \<and> 10000 < length report"
  then show "FinancialDocumentTool_run_call w path =
          Some (Inr (take 10000 report @ [NL, NL] @
                     ''[Document truncated for processing...]''))"
    by (simp add: FinancialDocumentTool_run_call_def except_Exception_def try_block_def)
qed

theorem FinancialDocumentTool_run_call_returns_witness:
  "FinancialDocumentTool_run_call fallback_world ''data/missing.pdf'' =
     Some (Inr ''Error: PDF file not found at data/missing.pdf'')
   \<and> try_block unreadable_world ''data/report.pdf'' = Some (Inl ''EOF marker not found'')
   \<and> FinancialDocumentTool_run_call unreadable_world ''data/report.pdf'' =
       Some (Inr ''Error reading PDF file: EOF marker not found'')
   \<and> FinancialDocumentTool_run_call long_world ''data/report.pdf'' =
       Some (Inr (replicate 10000 (CHR ''a'') @ [NL, NL] @
                  ''[Document truncated for processing...]''))"
proof -
  have missing: "\<not> path_exists fallback_world ''data/missing.pdf''"
    by (simp add: fallback_world_def)
  have raised: "try_block unreadable_world ''data/report.pdf'' = Some (Inl ''EOF marker not found'')"
    by (simp add: try_block_def unreadable_world_def fallback_world_def)
  have long: "path_exists long_world ''data/report.pdf'' \<and>
      pdf_pages long_world ''data/report.pdf'' = Inr [long_page] \<and>
      read_pages [long_page] [] = Some (replicate 10001 (CHR ''a'') @ [NL]) \<and>
      10000 < length (replicate 10001 (CHR ''a'') @ [NL])"
    by (simp add: long_world_def fallback_world_def read_pages_returns full_report_long_page)
  note first = FinancialDocumentTool_run_call_returns
    [of fallback_world "''data/missing.pdf''", THEN conjunct2, THEN conjunct1, rule_format,
      OF missing]
  note second = FinancialDocumentTool_run_call_returns
    [of unreadable_world "''data/report.pdf''" "''EOF marker not found''",
      THEN conjunct2, THEN conjunct2, THEN conjunct1, rule_format, OF raised]
  note third = FinancialDocumentTool_run_call_returns
    [of long_world "''data/report.pdf''" _ "[long_page]"
      "replicate 10001 (CHR ''a'') @ [NL]",
      THEN conjunct2, THEN conjunct2, THEN conjunct2, rule_format, OF long]
  show ?thesis
    unfolding first second third raised by simp
qed

section \<open>Executing a job\<close>

text \<open>
  C1, as the code has it. \<open>process_document\<close> does not read the stored status. It
  returns without a change to the store when no row has the job id. For a job id in the
  store, whatever the status of its row, with the commits of lines 95 and 123 returning
  and the file size measured, the call runs the analysis, appends a result row, and
  leaves the row claimed at this call's \<open>utcnow_started\<close> and completed.
\<close>

theorem process_document_runs_any_status:
  "(first_item q db = None \<longrightarrow> process_document w q db = (db, NotFound))
   \<and> (first_item q db = Some r \<and> commit_claim_error w = None \<and>
        commit_finish_error w = None \<and> measured_size w (file_path r) = Inr sz \<longrightarrow>
        first_item q (fst (process_document w q db)) = Some (complete_row w (claim_row w r))
        \<and> analysis_results (fst (process_document w q db)) =
            analysis_results db @
              [new_result w r
                 (perform_analysis w (FinancialDocumentTool_run w (file_path r)) (query r))
                 sz db])"
proof (intro conjI impI)
  assume "first_item q db = None"
  then show "process_document w q db = (db, NotFound)"
    by (rule process_document_missing)
next
  assume run: "first_item q db = Some r \<and> commit_claim_error w = None \<and>
        commit_finish_error w = None \<and> measured_size w (file_path r) = Inr sz"
  then have "first_item q (fst (process_document w q db)) = Some (job_effect w r r)"
    by (simp add: process_document_item)
  with run show "first_item q (fst (process_document w q db)) =
      Some (complete_row w (claim_row w r))"
    by (simp add: job_effect_completes)
  from run show "analysis_results (fst (process_document w q db)) =
            analysis_results db @
              [new_result w r
                 (perform_analysis w (FinancialDocumentTool_run w (file_path r)) (query r))
                 sz db]"
    by (simp add: process_document_completes mark_completed_def mark_processing_def)
qed

theorem process_document_runs_any_status_witness:
  "process_document later_world 7 (store finished_system) = (store finished_system, NotFound)
   \<and> job_status 1 (store finished_system) = Some ''completed''
   \<and> job_status 1 (fst (process_document later_world 1 (store finished_system))) =
       Some ''completed''
   \<and> length (analysis_results (fst (process_document later_world 1 (store finished_system)))) = 2"
  using process_document_runs_any_status [of 7 "store finished_system" later_world]
    process_document_runs_any_status
      [of 1 "store finished_system" later_world
        "(job 1 1 ''completed'')\<lparr>started_at := Some 101, completed_at := Some 105\<rparr>"
        2048]
    finished_system_rows finished_system_results
  by (simp add: first_item_def job_status_def measured_size_def later_world_def
      fallback_world_def job_def complete_row_def claim_row_def)

text \<open>
  C1 as stated fails. Job 1 of \<open>finished_system\<close> is completed, started at 101, with
  one result row. A second call of \<open>process_document\<close> for it is not a no-op: the
  record is claimed again, started at 201, and a second result row is stored.
\<close>

theorem process_document_second_call_counterexample:
  "\<not> redelivery_is_noop later_world 1 (store finished_system)
   \<and> job_status 1 (store finished_system) = Some ''completed''
   \<and> map started_at (analysis_queue (store finished_system)) = [Some 101]
   \<and> map started_at
       (analysis_queue (fst (process_document later_world 1 (store finished_system)))) =
       [Some 201]
   \<and> length (analysis_results (store finished_system)) = 1
   \<and> length (analysis_results (fst (process_document later_world 1 (store finished_system)))) = 2"
  by (simp add: redelivery_is_noop_def finished_system_def later_world_def fallback_world_def empty_system_def submit_report_def model_defs)

text \<open>
  C4, as the code has it. A job whose file does not exist at execution time, with the
  commits of lines 95 and 123 returning, goes from its stored status to processing and
  then to completed: the tool returns its message \<^verbatim>\<open>Error: PDF file not found at\<close>
  as the content, the report on that message is stored as the result with file size
  \<open>0\<close>, and the call does not write \<open>error_message\<close>.
\<close>

theorem missing_file_job_completes:
  assumes "first_item q db = Some r" and "\<not> path_exists w (file_path r)"
    and "commit_claim_error w = None" and "commit_finish_error w = None"
  shows "first_item q (mark_processing w q db) = Some (claim_row w r)
       \<and> status (claim_row w r) = ''processing''
       \<and> process_document w q db =
           (mark_completed w q
              (new_result w r
                 (perform_analysis w (''Error: PDF file not found at '' @ file_path r) (query r))
                 0 db)
              (mark_processing w q db),
            Success (next_id (map result_id (analysis_results db))) (elapsed w)
              (perform_analysis w (''Error: PDF file not found at '' @ file_path r) (query r)))
       \<and> first_item q (fst (process_document w q db)) = Some (complete_row w (claim_row w r))
       \<and> status (complete_row w (claim_row w r)) = ''completed''
       \<and> error_message (complete_row w (claim_row w r)) = error_message r"
proof -
  from assms(2) have size: "measured_size w (file_path r) = Inr 0"
    by (simp add: measured_size_def)
  from assms(2) have content:
    "FinancialDocumentTool_run w (file_path r) = ''Error: PDF file not found at '' @ file_path r"
    by (simp add: FinancialDocumentTool_run_def)
  have "first_item q (fst (process_document w q db)) = Some (job_effect w r r)"
    using assms(1) by (rule process_document_item)
  then have "first_item q (fst (process_document w q db)) = Some (complete_row w (claim_row w r))"
    using assms(3,4) size by (simp add: job_effect_completes)
  then show ?thesis
    using process_document_completes [OF assms(1,3,4) size] content
      first_item_mark_processing [OF assms(1), of w]
    by (simp add: claim_row_def complete_row_def)
qed

theorem missing_file_job_completes_witness:
  "job_status 1 (mark_processing fallback_world 1 missing_store) = Some ''processing''
   \<and> job_status 1 (fst (process_document fallback_world 1 missing_store)) = Some ''completed''
   \<and> map file_size (analysis_results (fst (process_document fallback_world 1 missing_store))) = [0]"
proof -
  let ?r = "(job 1 1 ''pending'')\<lparr>file_path := ''data/missing.pdf''\<rparr>"
  have found: "first_item 1 missing_store = Some ?r"
    by (simp add: first_item_def missing_store_def job_def)
  have gone: "\<not> path_exists fallback_world (file_path ?r)"
    by (simp add: fallback_world_def)
  have commits: "commit_claim_error fallback_world = None" "commit_finish_error fallback_world = None"
    by (simp_all add: fallback_world_def)
  note run = missing_file_job_completes [OF found gone commits]
  note claimed = run [THEN conjunct1]
  note whole = run [THEN conjunct2, THEN conjunct2, THEN conjunct1]
  note completed = run [THEN conjunct2, THEN conjunct2, THEN conjunct2, THEN conjunct1]
  show ?thesis
    unfolding job_status_def claimed completed
    unfolding whole
    by (simp add: claim_row_def complete_row_def new_result_def mark_completed_def
        mark_processing_def missing_store_def)
qed

text \<open>
  C4 as stated fails: the file \<^verbatim>\<open>data/missing.pdf\<close> does not exist, and the pending
  job that names it ends completed, with no error message.
\<close>

theorem missing_file_job_counterexample:
  "\<not> unresolved_input_fails fallback_world 1 missing_store
   \<and> \<not> path_exists fallback_world ''data/missing.pdf''
   \<and> job_status 1 missing_store = Some ''pending''
   \<and> job_status 1 (fst (process_document fallback_world 1 missing_store)) = Some ''completed''
   \<and> map error_message (analysis_queue (fst (process_document fallback_world 1 missing_store))) =
       [None]"
  by (simp add: unresolved_input_fails_def missing_store_def job_def fallback_world_def model_defs)

section \<open>Submitting a job\<close>

lemma str_int_1: "str_int 1 = ''1''"
  by (simp add: str_int_def str_nat.simps digit_def)

lemma add_to_queue_immediate:
  assumes "\<not> REDIS_CONNECTED w" and "commit_submit_error w = None"
  shows "add_to_queue w user fname path q prio s =
           (s\<lparr>store := fst (process_document w (next_id (map item_id (analysis_queue (store s))))
                            (insert_item (new_item w user fname path q prio (store s)) (store s)))\<rparr>,
            Inr (''processed_immediate_'' @
                 str_int (next_id (map item_id (analysis_queue (store s))))))"
  using assms by (simp add: add_to_queue_def Let_def)

text \<open>
  C3, as the code has it. With Redis down and every commit returning, \<open>add_to_queue\<close>
  runs \<open>process_document\<close> on the new job before it returns, the returned string is
  \<^verbatim>\<open>processed_immediate_\<close> and the job id, and the job's row is then completed, or
  failed when measuring the file raised. The string carries the id, not the status.
\<close>

theorem immediate_submission_resolves:
  assumes "\<not> REDIS_CONNECTED w"
    and "commit_submit_error w = None" and "commit_claim_error w = None"
    and "commit_finish_error w = None" and "commit_failed_error w = None"
  shows "store (fst (add_to_queue w user fname path q prio s)) =
           fst (process_document w (next_id (map item_id (analysis_queue (store s))))
                  (insert_item (new_item w user fname path q prio (store s)) (store s)))
         \<and> snd (add_to_queue w user fname path q prio s) =
           Inr (''processed_immediate_'' @
                str_int (next_id (map item_id (analysis_queue (store s)))))
         \<and> job_status (next_id (map item_id (analysis_queue (store s))))
             (store (fst (add_to_queue w user fname path q prio s))) =
           Some (case measured_size w path of Inl e \<Rightarrow> ''failed'' | Inr sz \<Rightarrow> ''completed'')"
proof -
  let ?new = "new_item w user fname path q prio (store s)"
  let ?nid = "next_id (map item_id (analysis_queue (store s)))"
  have "status (job_effect w ?new ?new) =
      (case measured_size w path of Inl e \<Rightarrow> ''failed'' | Inr sz \<Rightarrow> ''completed'')"
    using assms
    by (simp add: job_effect_def new_item_def fail_row_def complete_row_def split: sum.splits)
  moreover have "first_item ?nid (insert_item ?new (store s)) = Some ?new"
    by (rule first_item_new_item)
  from process_document_item [OF this, of w]
  have "first_item ?nid (fst (process_document w ?nid (insert_item ?new (store s)))) =
          Some (job_effect w ?new ?new)" .
  ultimately show ?thesis
    using add_to_queue_immediate [OF assms(1,2), of user fname path q prio s]
    by (simp add: job_status_def)
qed

theorem immediate_submission_resolves_witness:
  "snd (add_to_queue fallback_world 1 ''report.pdf'' ''data/report.pdf'' ''Summarise'' 1
          empty_system) = Inr ''processed_immediate_1''
   \<and> job_status 1
       (store (fst (add_to_queue fallback_world 1 ''report.pdf'' ''data/report.pdf''
                      ''Summarise'' 1 empty_system))) = Some ''completed''
   \<and> job_status 1
       (store (fst (add_to_queue vanished_world 1 ''report.pdf'' ''data/report.pdf''
                      ''Summarise'' 1 empty_system))) = Some ''failed''"
proof -
  have fallback:
    "\<not> REDIS_CONNECTED fallback_world" "commit_submit_error fallback_world = None"
    "commit_claim_error fallback_world = None" "commit_finish_error fallback_world = None"
    "commit_failed_error fallback_world = None"
    by (simp_all add: fallback_world_def)
  have vanished:
    "\<not> REDIS_CONNECTED vanished_world" "commit_submit_error vanished_world = None"
    "commit_claim_error vanished_world = None" "commit_finish_error vanished_world = None"
    "commit_failed_error vanished_world = None"
    by (simp_all add: vanished_world_def fallback_world_def)
  have first: "next_id (map item_id (analysis_queue (store empty_system))) = 1"
    by (simp add: empty_system_def next_id_def)
  have measured:
    "measured_size fallback_world ''data/report.pdf'' = Inr 2048"
    "measured_size vanished_world ''data/report.pdf'' = Inl ''No such file or directory''"
    by (simp_all add: measured_size_def vanished_world_def fallback_world_def)
  note here = immediate_submission_resolves
    [OF fallback, of 1 "''report.pdf''" "''data/report.pdf''" "''Summarise''" 1 empty_system,
      unfolded first measured]
  note there = immediate_submission_resolves
    [OF vanished, of 1 "''report.pdf''" "''data/report.pdf''" "''Summarise''" 1 empty_system,
      unfolded first measured]
  from here [THEN conjunct2] there [THEN conjunct2, THEN conjunct2] show ?thesis
    by (simp add: str_int_1)
qed

text \<open>
  C3 as stated fails when the database does not commit the claim: the commit of line
  95 raises, \<open>process_document\<close> returns its error dictionary, \<open>add_to_queue\<close> drops it
  and returns \<^verbatim>\<open>processed_immediate_1\<close>, and the job is still pending.
\<close>

theorem immediate_submission_counterexample:
  "\<not> resolved_on_return locked_world 1 ''report.pdf'' ''data/report.pdf'' ''Summarise'' 1
        empty_system
   \<and> \<not> REDIS_CONNECTED locked_world
   \<and> snd (add_to_queue locked_world 1 ''report.pdf'' ''data/report.pdf'' ''Summarise'' 1
            empty_system) = Inr ''processed_immediate_1''
   \<and> job_status 1
       (store (fst (add_to_queue locked_world 1 ''report.pdf'' ''data/report.pdf''
                      ''Summarise'' 1 empty_system))) = Some ''pending''"
  by (simp add: resolved_on_return_def terminal_def locked_world_def fallback_world_def empty_system_def model_defs str_int_1)

text \<open>
  C5, as the code has it. When the probe at import found no Redis, its failure is not
  passed on: with the commit of line 59 returning, \<open>add_to_queue\<close> runs the job at
  once and returns \<^verbatim>\<open>processed_immediate_\<close> and the job id. A failure of
  \<^verbatim>\<open>queue.enqueue\<close> is not turned into such a fallback: the handler of lines 75-77
  raises it to the caller.
\<close>

theorem broker_failure_at_submission:
  "(\<not> REDIS_CONNECTED w \<and> commit_submit_error w = None \<longrightarrow>
      add_to_queue w user fname path q prio s =
        (s\<lparr>store := fst (process_document w (next_id (map item_id (analysis_queue (store s))))
                         (insert_item (new_item w user fname path q prio (store s)) (store s)))\<rparr>,
         Inr (''processed_immediate_'' @
              str_int (next_id (map item_id (analysis_queue (store s)))))))
   \<and> (REDIS_CONNECTED w \<and> commit_submit_error w = None \<and> enqueue_error w = Some e \<longrightarrow>
        snd (add_to_queue w user fname path q prio s) = Inl e)"
  by (simp add: add_to_queue_immediate) (simp add: add_to_queue_def Let_def)

theorem broker_failure_at_submission_witness:
  "snd (add_to_queue fallback_world 1 ''report.pdf'' ''data/report.pdf'' ''Summarise'' 1
          empty_system) = Inr ''processed_immediate_1''
   \<and> snd (add_to_queue refused_world 1 ''report.pdf'' ''data/report.pdf'' ''Summarise'' 1
            empty_system) = Inl ''Connection refused''"
proof -
  have fallback: "\<not> REDIS_CONNECTED fallback_world \<and> commit_submit_error fallback_world = None"
    by (simp add: fallback_world_def)
  have refused: "REDIS_CONNECTED refused_world \<and> commit_submit_error refused_world = None \<and>
      enqueue_error refused_world = Some ''Connection refused''"
    by (simp add: refused_world_def redis_world_def fallback_world_def)
  have first: "next_id (map item_id (analysis_queue (store empty_system))) = 1"
    by (simp add: empty_system_def next_id_def)
  note here = broker_failure_at_submission
    [of fallback_world 1 "''report.pdf''" "''data/report.pdf''" "''Summarise''" 1 empty_system,
      THEN conjunct1, rule_format, OF fallback, unfolded first]
  note there = broker_failure_at_submission
    [of refused_world 1 "''report.pdf''" "''data/report.pdf''" "''Summarise''" 1 empty_system
      "''Connection refused''", THEN conjunct2, rule_format, OF refused]
  show ?thesis
    unfolding here there by (simp add: str_int_1)
qed

text \<open>
  C5 as stated fails for a failure of the dispatch: Redis answered the probe at import,
  \<^verbatim>\<open>queue.enqueue\<close> raises, and \<open>add_to_queue\<close> raises that exception to the caller.
  The job is not executed; its pending record is in the store and in no queue.
\<close>

theorem enqueue_failure_counterexample:
  "\<not> dispatch_error_hidden refused_world 1 ''report.pdf'' ''data/report.pdf'' ''Summarise'' 1
        empty_system
   \<and> add_to_queue refused_world 1 ''report.pdf'' ''data/report.pdf'' ''Summarise'' 1
       empty_system =
       (\<lparr>store = \<lparr>analysis_queue = [job 1 1 ''pending''], analysis_results = []\<rparr>,
         redis_queue = []\<rparr>,
        Inl ''Connection refused'')"
  by (simp add: dispatch_error_hidden_def refused_world_def redis_world_def job_def fallback_world_def empty_system_def model_defs)

text \<open>
  C7, as the code has it. When the commit of line 59, that of the new record, raises,
  \<open>add_to_queue\<close> raises that exception to the caller and the store is as before: the
  new record is not in it. Whenever \<open>add_to_queue\<close> raises, the store is either as
  before or has the one new record, whole and pending, appended. A commit that raises
  while the job is executed at once (lines 95, 123, 137) is not raised by
  \<open>add_to_queue\<close>: with Redis down and the commit of line 59 returning it returns
  \<^verbatim>\<open>processed_immediate_\<close> and the job id.
\<close>

theorem failed_commit_aborts_submission:
  "(commit_submit_error w = Some e \<longrightarrow>
      add_to_queue w user fname path q prio s = (s, Inl e))
   \<and> (snd (add_to_queue w user fname path q prio s) = Inl e' \<longrightarrow>
        fst (add_to_queue w user fname path q prio s) = s \<or>
        fst (add_to_queue w user fname path q prio s) =
          s\<lparr>store := insert_item (new_item w user fname path q prio (store s)) (store s)\<rparr>)
   \<and> status (new_item w user fname path q prio (store s)) = ''pending''
   \<and> (\<not> REDIS_CONNECTED w \<and> commit_submit_error w = None \<longrightarrow>
        snd (add_to_queue w user fname path q prio s) =
          Inr (''processed_immediate_'' @
               str_int (next_id (map item_id (analysis_queue (store s))))))"
  by (cases "commit_submit_error w"; cases "REDIS_CONNECTED w"; cases "enqueue_error w")
    (simp_all add: add_to_queue_def new_item_def Let_def)

theorem failed_commit_aborts_submission_witness:
  "add_to_queue full_disk_world 1 ''report.pdf'' ''data/report.pdf'' ''Summarise'' 1 empty_system =
     (empty_system, Inl ''disk I/O error'')
   \<and> snd (add_to_queue stalled_world 1 ''report.pdf'' ''data/report.pdf'' ''Summarise'' 1
            empty_system) = Inr ''processed_immediate_1''"
proof -
  have raised: "commit_submit_error full_disk_world = Some ''disk I/O error''"
    by (simp add: full_disk_world_def fallback_world_def)
  have stalled: "\<not> REDIS_CONNECTED stalled_world \<and> commit_submit_error stalled_world = None"
    by (simp add: stalled_world_def later_world_def fallback_world_def)
  have first: "next_id (map item_id (analysis_queue (store empty_system))) = 1"
    by (simp add: empty_system_def next_id_def)
  note abort = failed_commit_aborts_submission
    [of full_disk_world "''disk I/O error''" 1 "''report.pdf''" "''data/report.pdf''"
      "''Summarise''" 1 empty_system, THEN conjunct1, rule_format, OF raised]
  note swallowed = failed_commit_aborts_submission
    [of stalled_world _ 1 "''report.pdf''" "''data/report.pdf''" "''Summarise''" 1 empty_system,
      THEN conjunct2, THEN conjunct2, THEN conjunct2, rule_format, OF stalled,
      unfolded first]
  show ?thesis
    unfolding abort swallowed by (simp add: str_int_1)
qed

text \<open>
  C7 as stated fails for the commits made while the job is executed at once. With
  Redis down, the commits of lines 123 and 137 raise (\<open>stalled_world\<close>) or the commit of
  line 95 raises (\<open>locked_world\<close>): \<open>process_document\<close> catches the exception,
  \<open>add_to_queue\<close> raises nothing and returns \<^verbatim>\<open>processed_immediate_1\<close>, and the record
  is left processing in the first case, pending in the second.
\<close>

theorem storage_fault_swallowed_counterexample:
  "\<not> aborted_cleanly stalled_world 1 ''report.pdf'' ''data/report.pdf'' ''Summarise'' 1
        empty_system
   \<and> \<not> aborted_cleanly locked_world 1 ''report.pdf'' ''data/report.pdf'' ''Summarise'' 1
          empty_system
   \<and> commit_finish_error stalled_world = Some ''database is locked''
   \<and> snd (add_to_queue stalled_world 1 ''report.pdf'' ''data/report.pdf'' ''Summarise'' 1
            empty_system) = Inr ''processed_immediate_1''
   \<and> map status
       (analysis_queue
          (store (fst (add_to_queue stalled_world 1 ''report.pdf'' ''data/report.pdf''
                         ''Summarise'' 1 empty_system)))) = [''processing'']
   \<and> commit_claim_error locked_world = Some ''database is locked''
   \<and> snd (add_to_queue locked_world 1 ''report.pdf'' ''data/report.pdf'' ''Summarise'' 1
            empty_system) = Inr ''processed_immediate_1''"
  by (simp add: aborted_cleanly_def stalled_world_def locked_world_def later_world_def
      fallback_world_def empty_system_def model_defs str_int_1)

section \<open>Sequences of submissions and executions\<close>

lemma run_all_Nil: "run_all [] s = s"
  by (simp add: run_all_def)

lemma run_all_Cons: "run_all (op # ops) s = run_all ops (run op s)"
  by (simp add: run_all_def)

text \<open>The rows of the queue table after one call.\<close>

lemma execute_rows:
  "analysis_queue (store (run (Execute w q) s)) = analysis_queue (store s) \<or>
   (\<exists>queue_item. analysis_queue (store (run (Execute w q) s)) =
      map (\<lambda>r. if item_id r = q then job_effect w queue_item r else r) (analysis_queue (store s)))"
proof (cases "first_item q (store s)")
  case None
  then show ?thesis by (simp add: process_document_missing)
next
  case (Some queue_item)
  from process_document_rows [OF this, of w] show ?thesis by auto
qed

lemma submit_rows:
  "analysis_queue (store (run (Submit w user fname path q prio) s)) = analysis_queue (store s) \<or>
   analysis_queue (store (run (Submit w user fname path q prio) s)) =
     analysis_queue (store s) @ [new_item w user fname path q prio (store s)] \<or>
   analysis_queue (store (run (Submit w user fname path q prio) s)) =
     analysis_queue (store s) @
       [job_effect w (new_item w user fname path q prio (store s))
          (new_item w user fname path q prio (store s))]"
proof -
  let ?new = "new_item w user fname path q prio (store s)"
  let ?nid = "next_id (map item_id (analysis_queue (store s)))"
  have "first_item ?nid (insert_item ?new (store s)) = Some ?new"
    by (rule first_item_new_item)
  from process_document_rows [OF this, of w]
  have "analysis_queue (fst (process_document w ?nid (insert_item ?new (store s)))) =
          analysis_queue (store s) @ [job_effect w ?new ?new]"
    using next_id_not_used [of "store s"] by (simp add: insert_item_def touch_fresh)
  then show ?thesis
    by (cases "commit_submit_error w"; cases "REDIS_CONNECTED w"; cases "enqueue_error w")
      (simp_all add: add_to_queue_def Let_def insert_item_def)
qed

lemma same_job_refl: "same_job r r"
  by (simp add: same_job_def)

lemma same_job_trans: "same_job a b \<Longrightarrow> same_job b c \<Longrightarrow> same_job a c"
  by (auto simp: same_job_def)

lemma same_job_job_effect: "same_job r (job_effect w queue_item r)"
  by (simp add: job_effect_def same_job_def claim_row_def complete_row_def fail_row_def
      split: option.splits sum.splits)

lemma run_step:
  assumes "i < length (analysis_queue (store s))"
  shows "i < length (analysis_queue (store (run op s)))
       \<and> same_job (analysis_queue (store s) ! i) (analysis_queue (store (run op s)) ! i)
       \<and> (executes op (item_id (analysis_queue (store s) ! i)) \<or>
          analysis_queue (store (run op s)) ! i = analysis_queue (store s) ! i)"
proof (cases op)
  case (Submit w user fname path q prio)
  show ?thesis
    using assms submit_rows [of w user fname path q prio s]
    unfolding Submit by (auto simp: nth_append same_job_refl)
next
  case (Execute w q)
  show ?thesis
    using assms execute_rows [of w q s]
    unfolding Execute by (auto simp: same_job_refl same_job_job_effect split: if_splits)
qed

text \<open>
  C2, as the code has it. Over every sequence of submissions and executions, from
  every state, a job record keeps its place in the table and the columns written at
  submission, and its status does not return to pending once it has left it. A record
  is changed only by an execution of its own job id: where the sequence has none, the
  record stays as it is. (An execution of a job in a terminal state does change its
  record, as the counterexample shows.)
\<close>

theorem job_record_over_time:
  assumes "i < length (analysis_queue (store s))"
  shows "i < length (analysis_queue (store (run_all ops s)))
       \<and> same_job (analysis_queue (store s) ! i) (analysis_queue (store (run_all ops s)) ! i)
       \<and> ((\<exists>op \<in> set ops. executes op (item_id (analysis_queue (store s) ! i))) \<or>
          analysis_queue (store (run_all ops s)) ! i = analysis_queue (store s) ! i)"
  using assms
proof (induction ops arbitrary: s)
  case Nil
  then show ?case by (simp add: run_all_Nil same_job_refl)
next
  case (Cons op ops)
  let ?r = "analysis_queue (store s) ! i"
  let ?r1 = "analysis_queue (store (run op s)) ! i"
  let ?r2 = "analysis_queue (store (run_all ops (run op s))) ! i"
  from run_step [OF Cons.prems, of op]
  have len: "i < length (analysis_queue (store (run op s)))"
    and same: "same_job ?r ?r1"
    and kept: "executes op (item_id ?r) \<or> ?r1 = ?r"
    by simp_all
  from Cons.IH [OF len]
  have len2: "i < length (analysis_queue (store (run_all ops (run op s))))"
    and same2: "same_job ?r1 ?r2"
    and kept2: "(\<exists>op \<in> set ops. executes op (item_id ?r1)) \<or> ?r2 = ?r1"
    by simp_all
  from same have "item_id ?r1 = item_id ?r"
    by (simp add: same_job_def)
  with kept kept2 have "(\<exists>op' \<in> set (op # ops). executes op' (item_id ?r)) \<or> ?r2 = ?r"
    by auto
  with len2 same_job_trans [OF same same2] show ?case
    by (simp add: run_all_Cons)
qed

theorem job_record_over_time_witness:
  "map item_id
     (analysis_queue (store (run_all [submit_report later_world, Execute later_world 2]
                               finished_system))) = [1, 2]
   \<and> analysis_queue (store (run_all [submit_report later_world, Execute later_world 2]
                              finished_system)) ! 0 =
       analysis_queue (store finished_system) ! 0
   \<and> same_job (analysis_queue (store finished_system) ! 0)
       (analysis_queue (store (run_all [submit_report later_world, Execute later_world 2]
                                 finished_system)) ! 0)"
proof -
  have "0 < length (analysis_queue (store finished_system))"
    by (simp add: finished_system_rows)
  from job_record_over_time
    [OF this, of "[submit_report later_world, Execute later_world 2]"]
  have "analysis_queue (store (run_all [submit_report later_world, Execute later_world 2]
                              finished_system)) ! 0 =
       analysis_queue (store finished_system) ! 0
   \<and> same_job (analysis_queue (store finished_system) ! 0)
       (analysis_queue (store (run_all [submit_report later_world, Execute later_world 2]
                                 finished_system)) ! 0)"
    by (simp add: finished_system_rows submit_report_def job_def same_job_refl)
  moreover have "map item_id
     (analysis_queue (store (run_all [submit_report later_world, Execute later_world 2]
                               finished_system))) = [1, 2]"
    by (simp add: finished_system_def later_world_def fallback_world_def empty_system_def
        submit_report_def model_defs)
  ultimately show ?thesis by blast
qed

text \<open>
  C2 as stated fails. After the submission with Redis down job 1 is completed, started
  at 101. An execution of job 1 after that changes the record: it is started at 201.
  When the commits of lines 123 and 137 raise in that execution, the job is left
  processing: its status has moved back from completed.
\<close>

theorem terminal_record_changes_counterexample:
  "\<not> status_monotone [Execute later_world 1] (run_all [submit_report fallback_world] empty_system)
   \<and> \<not> status_monotone [Execute stalled_world 1]
         (run_all [submit_report fallback_world] empty_system)
   \<and> map status (analysis_queue (store (run_all [submit_report fallback_world] empty_system))) =
     [''completed'']
   \<and> map started_at
       (analysis_queue (store (run_all [submit_report fallback_world] empty_system))) =
       [Some 101]
   \<and> map started_at
       (analysis_queue
          (store (run_all [submit_report fallback_world, Execute later_world 1] empty_system))) =
       [Some 201]
   \<and> map status
       (analysis_queue
          (store (run_all [submit_report fallback_world, Execute stalled_world 1] empty_system))) =
       [''processing'']"
  by (simp add: status_monotone_def monotone_step_def rank_def terminal_def
      later_world_def stalled_world_def fallback_world_def empty_system_def submit_report_def model_defs)

lemma kept_invariant_job_effect:
  assumes "kept_invariant r" and "utcnow_started w \<le> utcnow_completed w"
  shows "kept_invariant (job_effect w queue_item r)"
  using assms
  by (simp add: job_effect_def kept_invariant_def terminal_def ordered_def
      claim_row_def complete_row_def fail_row_def split: option.splits sum.splits)

lemma kept_invariant_new_item: "kept_invariant (new_item w user fname path q prio db)"
  by (simp add: kept_invariant_def new_item_def terminal_def)

lemma run_keeps_invariant:
  assumes "\<forall>r \<in> set (analysis_queue (store s)). kept_invariant r" and "clock_ordered op"
  shows "\<forall>r \<in> set (analysis_queue (store (run op s))). kept_invariant r"
proof (cases op)
  case (Submit w user fname path q prio)
  with assms(2) have "utcnow_started w \<le> utcnow_completed w"
    by (simp add: clock_ordered_def)
  then have "kept_invariant (job_effect w (new_item w user fname path q prio (store s))
          (new_item w user fname path q prio (store s)))"
    by (intro kept_invariant_job_effect kept_invariant_new_item)
  then show ?thesis
    using assms(1) submit_rows [of w user fname path q prio s]
      kept_invariant_new_item [of w user fname path q prio "store s"]
    unfolding Submit by auto
next
  case (Execute w q)
  with assms(2) have "utcnow_started w \<le> utcnow_completed w"
    by (simp add: clock_ordered_def)
  then show ?thesis
    using assms(1) execute_rows [of w q s] kept_invariant_job_effect [of _ w]
    unfolding Execute by auto
qed

text \<open>
  C6, as the code has it. When the clock does not run backwards within a call, every
  call keeps \<open>kept_invariant\<close> for every job record: the status is one of the four;
  \<open>started_at\<close> is set if and only if the status is processing, completed or failed; a
  completed or failed job has \<open>started_at\<close> and \<open>completed_at\<close> set with
  \<open>started_at \<le> completed_at\<close>; a failed job has its \<open>error_message\<close> set. The store
  without jobs is one state to start from. (That \<open>completed_at\<close> and \<open>error_message\<close>
  are set only in those states is not kept: an execution does not clear them.)
\<close>

theorem timestamps_invariant_kept:
  assumes "\<forall>r \<in> set (analysis_queue (store s)). kept_invariant r"
    and "\<forall>op \<in> set ops. clock_ordered op"
  shows "\<forall>r \<in> set (analysis_queue (store (run_all ops s))). kept_invariant r"
  using assms
proof (induction ops arbitrary: s)
  case Nil
  then show ?case by (simp add: run_all_Nil)
next
  case (Cons op ops)
  from Cons.prems have "\<forall>r \<in> set (analysis_queue (store (run op s))). kept_invariant r"
    by (intro run_keeps_invariant) simp_all
  with Cons.IH [of "run op s"] Cons.prems(2) show ?case
    by (simp add: run_all_Cons)
qed

theorem timestamps_invariant_kept_witness:
  "list_all kept_invariant
     (analysis_queue
        (store (run_all [submit_report vanished_world, Execute later_world 1,
                         submit_report redis_world] empty_system)))
   \<and> map status
       (analysis_queue
          (store (run_all [submit_report vanished_world, Execute later_world 1,
                           submit_report redis_world] empty_system))) =
       [''completed'', ''pending'']"
proof -
  have start: "\<forall>r \<in> set (analysis_queue (store empty_system)). kept_invariant r"
    by (simp add: empty_system_def)
  have clocks: "\<forall>op \<in> set [submit_report vanished_world, Execute later_world 1,
                         submit_report redis_world]. clock_ordered op"
    by (simp add: clock_ordered_def submit_report_def vanished_world_def later_world_def
        redis_world_def fallback_world_def)
  from timestamps_invariant_kept [OF start clocks]
  have "list_all kept_invariant
     (analysis_queue
        (store (run_all [submit_report vanished_world, Execute later_world 1,
                         submit_report redis_world] empty_system)))"
    by (simp add: list_all_iff)
  moreover have "map status
       (analysis_queue
          (store (run_all [submit_report vanished_world, Execute later_world 1,
                           submit_report redis_world] empty_system))) =
       [''completed'', ''pending'']"
    by (simp add: vanished_world_def later_world_def redis_world_def fallback_world_def
        empty_system_def submit_report_def model_defs)
  ultimately show ?thesis by blast
qed

text \<open>
  C6 as stated fails. Job 1 is submitted with Redis down and fails, as measuring the
  file raises; its error message is recorded. An execution of job 1 after that
  completes it, and the record of the completed job still has the error message: the
  invariant of the specification does not hold for it.
\<close>

theorem completed_job_with_error_counterexample:
  "map status
     (analysis_queue
        (store (run_all [submit_report vanished_world] empty_system))) = [''failed'']
   \<and> map status
     (analysis_queue
        (store (run_all [submit_report vanished_world, Execute later_world 1] empty_system))) =
       [''completed'']
   \<and> map error_message
       (analysis_queue
          (store (run_all [submit_report vanished_world, Execute later_world 1] empty_system))) =
       [Some ''No such file or directory'']
   \<and> map job_invariant
       (analysis_queue
          (store (run_all [submit_report vanished_world, Execute later_world 1] empty_system))) =
       [False]"
  by (simp add: vanished_world_def later_world_def fallback_world_def empty_system_def submit_report_def model_defs job_invariant_def terminal_def ordered_def)

section \<open>Queue statistics\<close>

lemma length_by_four_values:
  assumes "\<forall>r \<in> set rows. f r = a \<or> f r = b \<or> f r = c \<or> f r = d"
    and "distinct [a, b, c, d]"
  shows "length rows =
           length (filter (\<lambda>r. f r = a) rows) + length (filter (\<lambda>r. f r = b) rows) +
           length (filter (\<lambda>r. f r = c) rows) + length (filter (\<lambda>r. f r = d) rows)"
  using assms by (induction rows) auto

lemma status_names_distinct:
  "distinct [''pending'', ''processing'', ''completed'', ''failed'']"
  by simp

lemma count_status_partition:
  assumes "\<forall>r \<in> set rows. status r = ''pending'' \<or> status r = ''processing'' \<or>
             status r = ''completed'' \<or> status r = ''failed''"
  shows "length rows =
           count_status ''pending'' rows + count_status ''processing'' rows +
           count_status ''completed'' rows + count_status ''failed'' rows"
  unfolding count_status_def
  by (rule length_by_four_values [OF assms status_names_distinct])

lemma job_list_unfold:
  "job_list None None db = analysis_queue db"
  "job_list (Some u) None db = filter (\<lambda>r. user_id r = u) (analysis_queue db)"
  "job_list None (Some v) db = filter (\<lambda>r. status r = v) (analysis_queue db)"
  "job_list (Some u) (Some v) db =
     filter (\<lambda>r. status r = v) (filter (\<lambda>r. user_id r = u) (analysis_queue db))"
  by (auto simp: job_list_def intro: filter_cong)

lemma get_queue_status_rows:
  "get_queue_status w user db =
     (db,
      \<lparr>total_jobs = length (job_list (if truthy user then user else None) None db),
       pending = length (job_list (if truthy user then user else None) (Some ''pending'') db),
       processing = length (job_list (if truthy user then user else None) (Some ''processing'') db),
       completed = length (job_list (if truthy user then user else None) (Some ''completed'') db),
       failed = length (job_list (if truthy user then user else None) (Some ''failed'') db),
       redis_connected = REDIS_CONNECTED w\<rparr>)"
  by (cases user) (simp_all add: get_queue_status_def truthy_def job_list_unfold count_status_def Let_def)

lemma truthy_unless_zero: "user \<noteq> Some 0 \<Longrightarrow> (if truthy user then user else None) = user"
  by (cases user) (simp_all add: truthy_def)

text \<open>
  Where the owner filter works: for a call without owner, or with an owner id other
  than \<open>0\<close>, \<open>get_queue_status\<close> leaves the store as it is and returns the counts of the
  specification, and \<open>total\<close> is the sum of the four when every record of the store has
  one of the four statuses.
\<close>

lemma get_queue_status_counts:
  assumes "user \<noteq> Some 0"
  shows "get_queue_status w user db =
           (db,
            \<lparr>total_jobs = length (job_list user None db),
             pending = length (job_list user (Some ''pending'') db),
             processing = length (job_list user (Some ''processing'') db),
             completed = length (job_list user (Some ''completed'') db),
             failed = length (job_list user (Some ''failed'') db),
             redis_connected = REDIS_CONNECTED w\<rparr>)
         \<and> ((\<forall>r \<in> set (analysis_queue db).
                status r = ''pending'' \<or> status r = ''processing'' \<or>
                status r = ''completed'' \<or> status r = ''failed'') \<longrightarrow>
              total_jobs (snd (get_queue_status w user db)) =
                pending (snd (get_queue_status w user db)) +
                processing (snd (get_queue_status w user db)) +
                completed (snd (get_queue_status w user db)) +
                failed (snd (get_queue_status w user db)))"
proof (intro conjI impI)
  show counts: "get_queue_status w user db =
           (db,
            \<lparr>total_jobs = length (job_list user None db),
             pending = length (job_list user (Some ''pending'') db),
             processing = length (job_list user (Some ''processing'') db),
             completed = length (job_list user (Some ''completed'') db),
             failed = length (job_list user (Some ''failed'') db),
             redis_connected = REDIS_CONNECTED w\<rparr>)"
    using get_queue_status_rows [of w user db] truthy_unless_zero [OF assms] by simp
  assume four: "\<forall>r \<in> set (analysis_queue db).
                status r = ''pending'' \<or> status r = ''processing'' \<or>
                status r = ''completed'' \<or> status r = ''failed''"
  define rows where "rows = job_list user None db"
  have "set rows \<subseteq> set (analysis_queue db)"
    by (auto simp: rows_def job_list_def)
  with four have "\<forall>r \<in> set rows. status r = ''pending'' \<or> status r = ''processing'' \<or>
                status r = ''completed'' \<or> status r = ''failed''"
    by blast
  from count_status_partition [OF this]
  have "length rows =
           count_status ''pending'' rows + count_status ''processing'' rows +
           count_status ''completed'' rows + count_status ''failed'' rows" .
  moreover have "job_list user (Some v) db = filter (\<lambda>r. status r = v) rows" for v
    by (cases user) (simp_all add: rows_def job_list_unfold)
  ultimately show "total_jobs (snd (get_queue_status w user db)) =
                pending (snd (get_queue_status w user db)) +
                processing (snd (get_queue_status w user db)) +
                completed (snd (get_queue_status w user db)) +
                failed (snd (get_queue_status w user db))"
    unfolding counts by (simp add: count_status_def rows_def)
qed

text \<open>
  C8. The counts are those of the records matching the owner filter, except for the
  owner id \<open>0\<close>: line 200 tests \<^verbatim>\<open>if user_id:\<close> where the value for no filter is
  \<^verbatim>\<open>None\<close>, so the owner \<open>0\<close> is taken for no owner. The store \<open>three_jobs\<close> has no job
  of owner \<open>0\<close>, the counts of the specification for that owner are all \<open>0\<close>, and the
  call with \<open>user_id = 0\<close> reports the three jobs of the other owners.
\<close>

theorem get_queue_status_owner_zero_diverges:
  "length (job_list (Some 0) None three_jobs) = 0
   \<and> length (job_list (Some 0) (Some ''pending'') three_jobs) = 0
   \<and> length (job_list (Some 0) (Some ''completed'') three_jobs) = 0
   \<and> length (job_list (Some 0) (Some ''failed'') three_jobs) = 0
   \<and> snd (get_queue_status fallback_world (Some 0) three_jobs) =
       \<lparr>total_jobs = 3, pending = 1, processing = 0, completed = 1, failed = 1,
        redis_connected = False\<rparr>"
  by (simp add: get_queue_status_def truthy_def count_status_def job_list_def three_jobs_def
      job_def fallback_world_def Let_def)

text \<open>
  C9. With \<open>user_id = 0\<close> the branch of line 200 is not taken: the call returns what
  the call without owner returns, and that is the store unchanged with the counts over
  the whole queue: the number of all job records, and for each status the number of
  all job records with that status.
\<close>

theorem get_queue_status_zero_is_unfiltered:
  "get_queue_status w (Some 0) db = get_queue_status w None db
   \<and> get_queue_status w (Some 0) db =
       (db,
        \<lparr>total_jobs = length (analysis_queue db),
         pending = length (filter (\<lambda>r. status r = ''pending'') (analysis_queue db)),
         processing = length (filter (\<lambda>r. status r = ''processing'') (analysis_queue db)),
         completed = length (filter (\<lambda>r. status r = ''completed'') (analysis_queue db)),
         failed = length (filter (\<lambda>r. status r = ''failed'') (analysis_queue db)),
         redis_connected = REDIS_CONNECTED w\<rparr>)"
  by (simp add: get_queue_status_def truthy_def count_status_def Let_def)

text \<open>
  On \<open>three_jobs\<close>, whose jobs are of the owners 1, 1 and 2: the call with
  \<open>user_id = 0\<close> counts all three, and no job is of owner \<open>0\<close>.
\<close>

theorem get_queue_status_zero_is_unfiltered_witness:
  "get_queue_status fallback_world (Some 0) three_jobs =
     (three_jobs,
      \<lparr>total_jobs = 3, pending = 1, processing = 0, completed = 1, failed = 1,
       redis_connected = False\<rparr>)
   \<and> get_queue_status fallback_world None three_jobs =
     (three_jobs,
      \<lparr>total_jobs = 3, pending = 1, processing = 0, completed = 1, failed = 1,
       redis_connected = False\<rparr>)
   \<and> length (filter (\<lambda>r. user_id r = 0) (analysis_queue three_jobs)) = 0"
proof -
  note same = get_queue_status_zero_is_unfiltered [of fallback_world three_jobs, THEN conjunct1]
  note counts = get_queue_status_zero_is_unfiltered [of fallback_world three_jobs, THEN conjunct2]
  have rows: "analysis_queue three_jobs =
      [job 1 1 ''pending'', job 2 1 ''completed'', job 3 2 ''failed'']"
    by (simp add: three_jobs_def)
  show ?thesis
    unfolding same [symmetric] counts rows
    by (simp add: job_def fallback_world_def)
qed

end
